theory Spec2Isabelle
  imports Main
begin

section \<open>Go values and library functions used by errors.go\<close>

text \<open>
  The diagnostics of \<^verbatim>\<open>errors.go\<close> are embedded shallowly. A Go \<^verbatim>\<open>error\<close> value
  is either \<^verbatim>\<open>io.EOF\<close> or some other error, known by its message. A call that may
  panic returns an \<open>outcome\<close>.
\<close>

datatype go_error = io_EOF | OtherError string

fun Error :: "go_error \<Rightarrow> string" where
  "Error io_EOF = ''EOF''"
| "Error (OtherError m) = m"

datatype 'a outcome = Return 'a | Panic

text \<open>
  Go's \<^verbatim>\<open>int\<close> is 64 bits wide on the platforms the program is built for; it is
  modelled as \<open>int\<close> with the two's complement wrap-around of \<^verbatim>\<open>+\<close> and \<^verbatim>\<open>-\<close>
  written out.
\<close>

definition max_int :: int where
  "max_int = 9223372036854775807"

definition min_int :: int where
  "min_int = - 9223372036854775808"

definition wrap64 :: "int \<Rightarrow> int" where
  "wrap64 x = (x + 9223372036854775808) mod 18446744073709551616 - 9223372036854775808"

definition is_int :: "int \<Rightarrow> bool" where
  "is_int x = (min_int \<le> x \<and> x \<le> max_int)"

text \<open>
  \<^verbatim>\<open>strings.Repeat\<close> panics on a negative count and when the length of the result
  overflows.
\<close>

definition Repeat :: "string \<Rightarrow> int \<Rightarrow> string outcome" where
  "Repeat s count =
     (if count < 0 \<or> max_int < int (length s) * count then Panic
      else Return (concat (replicate (nat count) s)))"

text \<open>
  A slice expression \<^verbatim>\<open>s[lo:hi]\<close> on a string panics unless
  \<^verbatim>\<open>0 <= lo <= hi <= len(s)\<close>.
\<close>

definition slice :: "string \<Rightarrow> int \<Rightarrow> int \<Rightarrow> string outcome" where
  "slice s lo hi =
     (if 0 \<le> lo \<and> lo \<le> hi \<and> hi \<le> int (length s)
      then Return (take (nat (hi - lo)) (drop (nat lo) s))
      else Panic)"

subsection \<open>Decimal formatting\<close>

definition digit_char :: "nat \<Rightarrow> char" where
  "digit_char d = ''0123456789'' ! d"

fun digits :: "nat \<Rightarrow> string" where
  "digits n = (if n < 10 then [digit_char n] else digits (n div 10) @ [digit_char (n mod 10)])"

declare digits.simps [simp del]

text \<open>The verb \<^verbatim>\<open>%d\<close>: the decimal digits, after a minus sign for a negative number.\<close>

definition Sprintf_d :: "int \<Rightarrow> string" where
  "Sprintf_d n = (if n < 0 then ''-'' else '''') @ digits (nat \<bar>n\<bar>)"

text \<open>
  The verb \<^verbatim>\<open>% 4d\<close>: the space flag puts a space where the sign of a number that
  is not negative would stand, and the result is then padded with spaces on the left to
  the width 4.
\<close>

definition pad_left :: "nat \<Rightarrow> string \<Rightarrow> string" where
  "pad_left w s = replicate (w - length s) CHR '' '' @ s"

definition Sprintf_space_4d :: "int \<Rightarrow> string" where
  "Sprintf_space_4d n = pad_left 4 ((if n < 0 then ''-'' else '' '') @ digits (nat \<bar>n\<bar>))"

section \<open>Locations and source files\<close>

text \<open>
  Modelled from the spec: \<^verbatim>\<open>ast.Location\<close>, the spec's source location of a line
  and a column, is declared in the package \<^verbatim>\<open>ast\<close>, which is not among the sources.
  Its fields \<^verbatim>\<open>Line\<close> and \<^verbatim>\<open>Col\<close> are Go \<^verbatim>\<open>int\<close>s, as \<^verbatim>\<open>errors.go\<close> uses
  them.
\<close>

record Location =
  Line :: int
  Col :: int

record ErrorLocation =
  FilePath :: string
  NodeLocation :: Location
  Length :: int

text \<open>
  A file opened by \<^verbatim>\<open>os.Open\<close> and wrapped in a \<^verbatim>\<open>bufio.Reader\<close> is the sequence
  of results its \<^verbatim>\<open>ReadLine\<close> calls give: a line without its end-of-line bytes, or a
  failed read. Once the sequence is used up every call gives \<^verbatim>\<open>io.EOF\<close>. A file system
  maps a path to the error of \<^verbatim>\<open>os.Open\<close> or to the file.
\<close>

datatype read_event = TextLine string | ReadFails string

type_synonym source_file = "read_event list"

type_synonym filesystem = "string \<Rightarrow> go_error + source_file"

fun ReadLine :: "source_file \<Rightarrow> (go_error + string) \<times> source_file" where
  "ReadLine [] = (Inl io_EOF, [])"
| "ReadLine (TextLine l # r) = (Inr l, r)"
| "ReadLine (ReadFails m # r) = (Inl (OtherError m), r)"

text \<open>The loop of \<^verbatim>\<open>lineInQuestion\<close> that reads and drops the lines before the target.\<close>

fun discard_lines :: "nat \<Rightarrow> source_file \<Rightarrow> go_error + source_file" where
  "discard_lines 0 buf = Inr buf"
| "discard_lines (Suc n) buf =
     (case ReadLine buf of
        (Inl err, _) \<Rightarrow> Inl err
      | (Inr _, buf') \<Rightarrow> discard_lines n buf')"

definition lineInQuestion :: "filesystem \<Rightarrow> ErrorLocation \<Rightarrow> go_error + string" where
  "lineInQuestion fs loc =
     (case fs (FilePath loc) of
        Inl err \<Rightarrow> Inl err
      | Inr buf \<Rightarrow>
          (case discard_lines (nat (wrap64 (Line (NodeLocation loc) - 1))) buf of
             Inl err \<Rightarrow> Inl err
           | Inr buf' \<Rightarrow>
               (case ReadLine buf' of
                  (Inl err, _) \<Rightarrow> if err = io_EOF then Inr '''' else Inl err
                | (Inr l, _) \<Rightarrow> Inr l)))"

text \<open>A file system holding one readable file, given by its lines.\<close>

definition single_file :: "string \<Rightarrow> string list \<Rightarrow> filesystem" where
  "single_file path ls p =
     (if p = path then Inr (map TextLine ls)
      else Inl (OtherError (''open '' @ p @ '': no such file or directory'')))"

definition at :: "string \<Rightarrow> int \<Rightarrow> int \<Rightarrow> int \<Rightarrow> ErrorLocation" where
  "at path l c n = \<lparr>FilePath = path, NodeLocation = \<lparr>Line = l, Col = c\<rparr>, Length = n\<rparr>"

section \<open>Writers\<close>

text \<open>
  An \<^verbatim>\<open>io.Writer\<close> is its \<^verbatim>\<open>Write\<close> method: from the state of the sink and the
  bytes to the new state and the error, if any. \<^verbatim>\<open>fmt.Fprintf\<close> formats its operands
  and hands the text to the writer in one call. A \<^verbatim>\<open>bytes.Buffer\<close> appends and never
  fails.
\<close>

type_synonym 'w writer = "'w \<Rightarrow> string \<Rightarrow> 'w \<times> go_error option"

definition buffer_write :: "string writer" where
  "buffer_write b p = (b @ p, None)"

abbreviation nl :: char where
  "nl \<equiv> CHR 0x0A"

abbreviation esc_red :: string where
  "esc_red \<equiv> CHR 0x1B # ''[31m''"

abbreviation esc_reset :: string where
  "esc_reset \<equiv> CHR 0x1B # ''[0m''"

text \<open>
  \<^verbatim>\<open>textio.NewPrefixWriter(out, indent)\<close> (a library outside this repository) writes
  \<open>indent\<close> before every line: the bytes written are cut after each line feed, a piece
  that completes a line is passed on after the indent, and an unfinished line is held
  back until it is completed. The state is the sink under it and the bytes held back.
\<close>

fun split_lines :: "string \<Rightarrow> string list" where
  "split_lines [] = []"
| "split_lines (c # cs) =
     (if c = nl then [c] # split_lines cs
      else case split_lines cs of [] \<Rightarrow> [[c]] | l # ls \<Rightarrow> (c # l) # ls)"

definition isLine :: "string \<Rightarrow> bool" where
  "isLine b = (b \<noteq> [] \<and> last b = nl)"

fun write_lines :: "'w writer \<Rightarrow> string \<Rightarrow> 'w \<times> string \<Rightarrow> string list \<Rightarrow> ('w \<times> string) \<times> go_error option" where
  "write_lines wr indent (w, b) [] = ((w, b), None)"
| "write_lines wr indent (w, b) (l # ls) =
     (let chunk = b @ l in
      if isLine chunk then
        (case wr w indent of
           (w1, Some err) \<Rightarrow> ((w1, chunk), Some err)
         | (w1, None) \<Rightarrow>
             (case wr w1 chunk of
                (w2, Some err) \<Rightarrow> ((w2, chunk), Some err)
              | (w2, None) \<Rightarrow> write_lines wr indent (w2, []) ls))
      else write_lines wr indent (w, chunk) ls)"

definition NewPrefixWriter :: "'w \<Rightarrow> 'w \<times> string" where
  "NewPrefixWriter out = (out, [])"

definition PrefixWriter_Write :: "'w writer \<Rightarrow> string \<Rightarrow> ('w \<times> string) writer" where
  "PrefixWriter_Write wr indent st p = write_lines wr indent st (split_lines p)"

section \<open>The plain annotation of a location\<close>

definition AnnotateLocation ::
  "filesystem \<Rightarrow> 'w writer \<Rightarrow> ErrorLocation \<Rightarrow> 'w \<Rightarrow> ('w \<times> go_error option) outcome" where
  "AnnotateLocation fs wr loc out =
     (if Line (NodeLocation loc) = 0 then Return (out, None)
      else case lineInQuestion fs loc of
          Inl err \<Rightarrow> Return (out, Some err)
        | Inr line \<Rightarrow>
            (let prefix = Sprintf_space_4d (Line (NodeLocation loc)) @ ''| '' in
             case wr out (prefix @ line @ [nl]) of
               (out1, Some err) \<Rightarrow> Return (out1, Some err)
             | (out1, None) \<Rightarrow>
                 (case Repeat '' '' (wrap64 (int (length prefix) + Col (NodeLocation loc) - 1)) of
                    Panic \<Rightarrow> Panic
                  | Return pad \<Rightarrow>
                      (case Repeat ''^'' (Length loc) of
                         Panic \<Rightarrow> Panic
                       | Return carets \<Rightarrow>
                           Return (wr out1 (pad @ esc_red @ carets @ esc_reset @ [nl]))))))"

section \<open>The diagnostics\<close>

datatype diagnostic =
    ParseError go_error ErrorLocation
  | UnknownTagError string ErrorLocation
  | AmbiguousReferenceError string "ErrorLocation list" ErrorLocation
  | UndefinedFunctionError string ErrorLocation
  | FailedFunctionError string go_error ErrorLocation

abbreviation quote :: string where
  "quote \<equiv> [CHR 0x27]"

abbreviation backslash :: string where
  "backslash \<equiv> [CHR 0x5C]"

text \<open>The method \<^verbatim>\<open>Error\<close> of each kind.\<close>

fun Error_of :: "diagnostic \<Rightarrow> string" where
  "Error_of (ParseError err loc) = Error err"
| "Error_of (UnknownTagError tag loc) = ''unknown tag '' @ quote @ tag @ quote"
| "Error_of (AmbiguousReferenceError tag defined loc) =
     ''ambiguous target for tag '' @ quote @ tag @ quote"
| "Error_of (UndefinedFunctionError f loc) = ''undefined function '' @ backslash @ f"
| "Error_of (FailedFunctionError f err loc) =
     ''function '' @ backslash @ f @ '' returned an error: '' @ Error err"

text \<open>
  \<^verbatim>\<open>Annotate(msg, args...)\<close>; its second argument here is the text
  \<^verbatim>\<open>fmt.Sprintf(msg, args...)\<close>, formatted where the method is called.
\<close>

definition Annotate :: "ErrorLocation \<Rightarrow> string \<Rightarrow> string" where
  "Annotate loc message =
     (if Line (NodeLocation loc) = 0 then FilePath loc @ '': '' @ message
      else FilePath loc @ '':'' @ Sprintf_d (Line (NodeLocation loc)) @ '': '' @ message)"

text \<open>
  Every \<^verbatim>\<open>PrettyPrint\<close> passes the text \<^verbatim>\<open>Annotate\<close> returns to \<^verbatim>\<open>fmt.Fprintf\<close> as
  the format, with no operand. \<open>Sprintf0 False\<close> is what \<^verbatim>\<open>fmt\<close> prints for a format
  and no operand: the bytes up to a percent sign are copied; after a percent sign the
  flags are read; then a second percent sign prints one percent sign, the end of the
  format prints \<^verbatim>\<open>%!(NOVERB)\<close>, and any other verb, having no operand, prints
  \<^verbatim>\<open>%!v(MISSING)\<close> with the verb for \<^verbatim>\<open>v\<close>. The result is \<open>None\<close> where the format
  goes on with a width, a precision, an argument index or a verb outside ASCII, which
  are not modelled. The flag of \<open>Sprintf0\<close> says that a percent sign has been read.
\<close>

definition is_flag :: "char \<Rightarrow> bool" where
  "is_flag c = (c \<in> set ''#0+- '')"

definition plain_verb :: "char \<Rightarrow> bool" where
  "plain_verb c = ((of_char c :: nat) < 128 \<and> c \<notin> set ''123456789[*.'')"

fun Sprintf0 :: "bool \<Rightarrow> string \<Rightarrow> string option" where
  "Sprintf0 False [] = Some []"
| "Sprintf0 False (c # cs) =
     (if c = CHR ''%'' then Sprintf0 True cs else map_option ((#) c) (Sprintf0 False cs))"
| "Sprintf0 True [] = Some ''%!(NOVERB)''"
| "Sprintf0 True (c # cs) =
     (if is_flag c then Sprintf0 True cs
      else if c = CHR ''%'' then map_option ((#) c) (Sprintf0 False cs)
      else if plain_verb c then map_option ((@) (''%!'' @ [c] @ ''(MISSING)'')) (Sprintf0 False cs)
      else None)"

definition Fprintf_format :: "'w writer \<Rightarrow> 'w \<Rightarrow> string \<Rightarrow> ('w \<times> go_error option) option" where
  "Fprintf_format wr out format = map_option (wr out) (Sprintf0 False format)"

text \<open>The loop of \<^verbatim>\<open>AmbiguousReferenceError.PrettyPrint\<close> over the defined locations.\<close>

fun annotate_defined :: "filesystem \<Rightarrow> 'w writer \<Rightarrow> ErrorLocation list \<Rightarrow> 'w \<Rightarrow> 'w outcome" where
  "annotate_defined fs wr [] out = Return out"
| "annotate_defined fs wr (loc # locs) out =
     (let out1 = fst (wr out (''- '' @ FilePath loc @ '':'' @ [nl])) in
      case AnnotateLocation fs (PrefixWriter_Write wr ''  '') loc (NewPrefixWriter out1) of
        Panic \<Rightarrow> Panic
      | Return ((out2, _), _) \<Rightarrow> annotate_defined fs wr locs out2)"

text \<open>
  \<^verbatim>\<open>PrettyPrint\<close> has no result; the model returns the state of the sink, or \<open>Panic\<close>.
  It is \<open>None\<close> where the first line's format is outside the modelled part of \<^verbatim>\<open>fmt\<close>.
\<close>

fun PrettyPrint :: "filesystem \<Rightarrow> 'w writer \<Rightarrow> diagnostic \<Rightarrow> 'w \<Rightarrow> 'w outcome option" where
  "PrettyPrint fs wr (ParseError err loc) out =
     (case Fprintf_format wr out (Annotate loc (''parse error: '' @ Error err @ [nl, nl])) of
        None \<Rightarrow> None
      | Some (out1, _) \<Rightarrow>
          Some (case AnnotateLocation fs wr loc out1 of
                  Panic \<Rightarrow> Panic
                | Return (out2, _) \<Rightarrow> Return out2))"
| "PrettyPrint fs wr (UnknownTagError tag loc) out =
     (case Fprintf_format wr out
             (Annotate loc (''reference points to unknown tag '' @ quote @ tag @ quote @ '':'' @ [nl, nl])) of
        None \<Rightarrow> None
      | Some (out1, _) \<Rightarrow>
          Some (case AnnotateLocation fs wr loc out1 of
                  Panic \<Rightarrow> Panic
                | Return (out2, _) \<Rightarrow> Return out2))"
| "PrettyPrint fs wr (AmbiguousReferenceError tag defined loc) out =
     (case Fprintf_format wr out
             (Annotate loc (Error_of (AmbiguousReferenceError tag defined loc) @ '':'' @ [nl, nl])) of
        None \<Rightarrow> None
      | Some (out1, _) \<Rightarrow>
          Some (case AnnotateLocation fs wr loc out1 of
                  Panic \<Rightarrow> Panic
                | Return (out2, _) \<Rightarrow>
                    (let out3 = fst (wr out2 (''the same tag was defined in the following locations:'' @ [nl, nl])) in
                     case annotate_defined fs wr defined out3 of
                       Panic \<Rightarrow> Panic
                     | Return out4 \<Rightarrow> Return (fst (wr out4 (''one of these must be changed.'' @ [nl]))))))"
| "PrettyPrint fs wr (UndefinedFunctionError f loc) out =
     (case Fprintf_format wr out
             (Annotate loc (Error_of (UndefinedFunctionError f loc) @ '':'' @ [nl, nl])) of
        None \<Rightarrow> None
      | Some (out1, _) \<Rightarrow>
          Some (case AnnotateLocation fs wr loc out1 of
                  Panic \<Rightarrow> Panic
                | Return (out2, _) \<Rightarrow> Return out2))"
| "PrettyPrint fs wr (FailedFunctionError f err loc) out =
     (case Fprintf_format wr out
             (Annotate loc (''function '' @ backslash @ f @ '' returned an error:'' @ [nl, nl])) of
        None \<Rightarrow> None
      | Some (out1, _) \<Rightarrow>
          Some (case AnnotateLocation fs wr loc out1 of
                  Panic \<Rightarrow> Panic
                | Return (out2, _) \<Rightarrow> Return (fst (wr out2 (''error: '' @ Error err @ [nl])))))"

section \<open>The hypertext rendering\<close>

record AnnotationData =
  DataFilePath :: string
  EOF :: bool
  Lineno :: string
  Prefix :: string
  Annotated :: string
  Suffix :: string

text \<open>
  The templates are assets of the package \<^verbatim>\<open>errhtml\<close>, which is not among the
  sources, so the registry is a parameter. A template is what its execution does with
  the data it is given: it writes to the sink and returns an error or none.
  \<^verbatim>\<open>errorTmpl.Lookup(name)\<close> looks the name up in the registry built at start-up and
  gives \<^verbatim>\<open>nil\<close> for a name that is not there; executing \<^verbatim>\<open>nil\<close> panics.
\<close>

datatype error_value = Pretty diagnostic | Plain go_error

datatype template_data = ErrorData error_value | LineData AnnotationData

type_synonym 'w template = "template_data \<Rightarrow> 'w \<Rightarrow> 'w \<times> go_error option"

type_synonym 'w registry = "string \<Rightarrow> 'w template option"

definition Execute :: "'w template option \<Rightarrow> template_data \<Rightarrow> 'w \<Rightarrow> ('w \<times> go_error option) outcome" where
  "Execute t data out = (case t of None \<Rightarrow> Panic | Some run \<Rightarrow> Return (run data out))"

text \<open>
  The split of the line into the text before, under and after the annotation
  (\<^verbatim>\<open>AnnotatedHTML\<close>, from \<^verbatim>\<open>offset := loc.NodeLocation.Col - 1\<close> on).
\<close>

definition compute_annotation :: "string \<Rightarrow> int \<Rightarrow> int \<Rightarrow> (string \<times> string \<times> string) outcome" where
  "compute_annotation line col len =
     (let offset = wrap64 (col - 1); stop = wrap64 (offset + len) in
      if stop \<le> int (length line) then
        (case slice line 0 offset of
           Panic \<Rightarrow> Panic
         | Return p \<Rightarrow>
             (case slice line offset stop of
                Panic \<Rightarrow> Panic
              | Return a \<Rightarrow>
                  (case slice line stop (int (length line)) of
                     Panic \<Rightarrow> Panic
                   | Return s \<Rightarrow> Return (p, a, s))))
      else Return ('''', '''', ''''))"

definition AnnotatedHTML ::
  "filesystem \<Rightarrow> 'w registry \<Rightarrow> ErrorLocation \<Rightarrow> 'w \<Rightarrow> ('w \<times> go_error option) outcome" where
  "AnnotatedHTML fs errorTmpl loc out =
     (if Line (NodeLocation loc) = 0 then Return (out, None)
      else case lineInQuestion fs loc of
          Inl err \<Rightarrow> Return (out, Some err)
        | Inr line \<Rightarrow>
            (case compute_annotation line (Col (NodeLocation loc)) (Length loc) of
               Panic \<Rightarrow> Panic
             | Return (p, a, s) \<Rightarrow>
                 Execute (errorTmpl ''annotated-line.tmpl'')
                   (LineData \<lparr>DataFilePath = FilePath loc, EOF = (line = ''''),
                      Lineno = Sprintf_space_4d (Line (NodeLocation loc)),
                      Prefix = p, Annotated = a, Suffix = s\<rparr>) out))"

fun PrettyHTML :: "'w registry \<Rightarrow> diagnostic \<Rightarrow> 'w \<Rightarrow> ('w \<times> go_error option) outcome" where
  "PrettyHTML errorTmpl (ParseError err loc) out =
     Execute (errorTmpl ''parse-error.tmpl'') (ErrorData (Pretty (ParseError err loc))) out"
| "PrettyHTML errorTmpl (UnknownTagError tag loc) out =
     Execute (errorTmpl ''unknown-tag.tmpl'') (ErrorData (Pretty (UnknownTagError tag loc))) out"
| "PrettyHTML errorTmpl (AmbiguousReferenceError tag defined loc) out =
     Execute (errorTmpl ''ambiguous-reference.tmpl'')
       (ErrorData (Pretty (AmbiguousReferenceError tag defined loc))) out"
| "PrettyHTML errorTmpl (UndefinedFunctionError f loc) out =
     Execute (errorTmpl ''undefined-function.tmpl'') (ErrorData (Pretty (UndefinedFunctionError f loc))) out"
| "PrettyHTML errorTmpl (FailedFunctionError f err loc) out =
     Execute (errorTmpl ''function-error.tmpl'') (ErrorData (Pretty (FailedFunctionError f err loc))) out"

definition ErrorPage :: "'w registry \<Rightarrow> 'w writer \<Rightarrow> error_value \<Rightarrow> 'w \<Rightarrow> 'w outcome" where
  "ErrorPage errorTmpl wr err w =
     (case Execute (errorTmpl ''page.tmpl'') (ErrorData err) w of
        Panic \<Rightarrow> Panic
      | Return (w1, None) \<Rightarrow> Return w1
      | Return (w1, Some renderErr) \<Rightarrow>
          Return (fst (wr w1 (''failed to render error page: '' @ Error renderErr))))"

section \<open>Notions used to state the claims\<close>

text \<open>
  The text \<^verbatim>\<open>AnnotateLocation\<close> writes for a location, read off an empty buffer, and
  a text with an indent before each of its lines.
\<close>

definition annotation :: "filesystem \<Rightarrow> ErrorLocation \<Rightarrow> string" where
  "annotation fs loc =
     (case AnnotateLocation fs buffer_write loc [] of
        Return (written, _) \<Rightarrow> written
      | Panic \<Rightarrow> [])"

definition indent_lines :: "string \<Rightarrow> string \<Rightarrow> string" where
  "indent_lines indent t = concat (map ((@) indent) (split_lines t))"

subsection \<open>Concrete inputs\<close>

text \<open>
  A file system with the one file \<^verbatim>\<open>a.lit\<close> of two lines; a template that shows the
  three parts of an annotated line, the annotated part in brackets; a registry in which
  every name is bound to a template that writes its own name; and a registry whose page
  template writes the start of a page and fails.
\<close>

definition two_lines :: filesystem where
  "two_lines = single_file ''a.lit'' [''one'', ''two'']"

definition show_line :: "string template" where
  "show_line data w =
     (case data of
        LineData d \<Rightarrow> (w @ Prefix d @ ''['' @ Annotated d @ '']'' @ Suffix d, None)
      | ErrorData e \<Rightarrow> (w, None))"

definition name_probe :: "string registry" where
  "name_probe name = Some (\<lambda>data w. (w @ name, None))"

definition failing_page :: "string registry" where
  "failing_page name =
     (if name = ''page.tmpl''
      then Some (\<lambda>data w. (w @ ''<html>'', Some (OtherError ''template: boom'')))
      else None)"

section \<open>Reading the line in question\<close>

lemma at_sel [simp]:
  "FilePath (at path l c n) = path"
  "Line (NodeLocation (at path l c n)) = l"
  "Col (NodeLocation (at path l c n)) = c"
  "Length (at path l c n) = n"
  by (simp_all add: at_def)

lemma wrap64_id: "is_int x \<Longrightarrow> wrap64 x = x"
  by (simp add: wrap64_def is_int_def min_int_def max_int_def)

lemma discard_lines_text:
  "discard_lines n (map TextLine ls) =
     (if n \<le> length ls then Inr (map TextLine (drop n ls)) else Inl io_EOF)"
proof (induction n arbitrary: ls)
  case 0
  then show ?case by simp
next
  case (Suc n)
  then show ?case by (cases ls) simp_all
qed

lemma ReadLine_text:
  "ReadLine (map TextLine ls) =
     (case ls of [] \<Rightarrow> (Inl io_EOF, []) | l # r \<Rightarrow> (Inr l, map TextLine r))"
  by (cases ls) simp_all

text \<open>
  What \<^verbatim>\<open>lineInQuestion\<close> returns on a file of \<open>length ls\<close> lines that reads without
  failure: the line when it exists, the empty string for the line right after the last
  one, and the error \<^verbatim>\<open>io.EOF\<close> for every later line.
\<close>

lemma lineInQuestion_single_file:
  assumes "1 \<le> l" and "l \<le> max_int"
  shows "lineInQuestion (single_file path ls) (at path l c n) =
     (if nat l \<le> length ls then Inr (ls ! (nat l - 1))
      else if nat l = Suc (length ls) then Inr ''''
      else Inl io_EOF)"
proof -
  have w: "wrap64 (l - 1) = l - 1"
    using assms by (intro wrap64_id) (simp add: is_int_def min_int_def)
  have d: "drop (nat (l - 1)) ls = ls ! (nat l - 1) # drop (nat l) ls" if "nat l \<le> length ls"
  proof -
    have "nat (l - 1) < length ls" using that assms by linarith
    then have "drop (nat (l - 1)) ls = ls ! nat (l - 1) # drop (Suc (nat (l - 1))) ls"
      by (simp add: Cons_nth_drop_Suc)
    moreover have "Suc (nat (l - 1)) = nat l" using assms by linarith
    moreover have "nat (l - 1) = nat l - 1" using assms by linarith
    ultimately show ?thesis by simp
  qed
  show ?thesis
  proof (cases "nat l \<le> length ls")
    case True
    then have "nat (l - 1) \<le> length ls" by linarith
    with True d show ?thesis
      by (simp add: lineInQuestion_def single_file_def w discard_lines_text ReadLine_text)
  next
    case False
    show ?thesis
    proof (cases "nat l = Suc (length ls)")
      case True
      then have "nat (l - 1) = length ls" using assms by linarith
      with True show ?thesis
        by (simp add: lineInQuestion_def single_file_def w discard_lines_text)
    next
      case False
      with \<open>\<not> nat l \<le> length ls\<close> have "\<not> nat (l - 1) \<le> length ls" using assms by linarith
      with False \<open>\<not> nat l \<le> length ls\<close> show ?thesis
        by (simp add: lineInQuestion_def single_file_def w discard_lines_text)
    qed
  qed
qed

section \<open>Formatting the line number\<close>

lemma concat_replicate_single: "concat (replicate n [c]) = replicate n c"
  by (induction n) simp_all

lemma length_digits: "length (digits n) = (if n < 10 then 1 else Suc (length (digits (n div 10))))"
  by (subst digits.simps) simp

lemma length_digits_pos: "0 < length (digits n)"
  by (subst digits.simps) simp

lemma length_digits_le: "n < 10 ^ Suc k \<Longrightarrow> length (digits n) \<le> Suc k"
proof (induction k arbitrary: n)
  case 0
  then show ?case by (simp add: length_digits)
next
  case (Suc k)
  show ?case
  proof (cases "n < 10")
    case True
    then show ?thesis by (simp add: length_digits)
  next
    case False
    from Suc.prems have "n div 10 < 10 ^ Suc k" by simp
    then have "length (digits (n div 10)) \<le> Suc k" by (rule Suc.IH)
    with False show ?thesis by (simp add: length_digits)
  qed
qed

lemma length_digits_gt: "10 ^ k \<le> n \<Longrightarrow> k < length (digits n)"
proof (induction k arbitrary: n)
  case 0
  show ?case by (rule length_digits_pos)
next
  case (Suc k)
  have "(10::nat) \<le> 10 ^ Suc k" by simp
  with Suc.prems have "\<not> n < 10" by linarith
  from Suc.prems have "10 ^ k \<le> n div 10" by simp
  then have "k < length (digits (n div 10))" by (rule Suc.IH)
  with \<open>\<not> n < 10\<close> show ?case by (simp add: length_digits)
qed

lemma Sprintf_space_4d_nonneg:
  "0 \<le> n \<Longrightarrow> Sprintf_space_4d n =
     replicate (3 - length (digits (nat n))) CHR '' '' @ '' '' @ digits (nat n)"
  by (simp add: Sprintf_space_4d_def pad_left_def)

lemma length_Sprintf_space_4d:
  assumes "0 \<le> n"
  shows "length (Sprintf_space_4d n) = (if n \<le> 999 then 4 else Suc (length (digits (nat n))))"
proof (cases "n \<le> 999")
  case True
  with assms have "nat n < 10 ^ Suc 2" by simp
  then have "length (digits (nat n)) \<le> 3" using length_digits_le by fastforce
  with True assms show ?thesis by (simp add: Sprintf_space_4d_nonneg)
next
  case False
  then have "10 ^ 3 \<le> nat n" by simp
  then have "3 < length (digits (nat n))" by (rule length_digits_gt)
  with False assms show ?thesis by (simp add: Sprintf_space_4d_nonneg)
qed

lemma Sprintf_space_4d_1000: "Sprintf_space_4d 1000 = '' 1000''"
  by code_simp

lemma Sprintf_space_4d_3: "Sprintf_space_4d 3 = ''   3''"
  by code_simp

lemma Sprintf_space_4d_1: "Sprintf_space_4d 1 = ''   1''"
  by code_simp

section \<open>The two lines of the plain annotation\<close>

lemma Repeat_char: "0 \<le> k \<Longrightarrow> k \<le> max_int \<Longrightarrow> Repeat [c] k = Return (replicate (nat k) c)"
  by (simp add: Repeat_def concat_replicate_single)

lemma AnnotateLocation_writes:
  assumes "Line (NodeLocation loc) \<noteq> 0"
    and "lineInQuestion fs loc = Inr line"
    and "1 \<le> Col (NodeLocation loc)"
    and "int (length (Sprintf_space_4d (Line (NodeLocation loc)))) + 2 + Col (NodeLocation loc) - 1 \<le> max_int"
    and "0 \<le> Length loc" and "Length loc \<le> max_int"
  shows "AnnotateLocation fs wr loc out =
     (case wr out (Sprintf_space_4d (Line (NodeLocation loc)) @ ''| '' @ line @ [nl]) of
        (out1, Some err) \<Rightarrow> Return (out1, Some err)
      | (out1, None) \<Rightarrow>
          Return (wr out1
            (replicate (length (Sprintf_space_4d (Line (NodeLocation loc))) + 2 + nat (Col (NodeLocation loc) - 1)) CHR '' '' @
             esc_red @ replicate (nat (Length loc)) CHR ''^'' @ esc_reset @ [nl])))"
proof -
  let ?g = "Sprintf_space_4d (Line (NodeLocation loc))"
  let ?k = "int (length (?g @ ''| '')) + Col (NodeLocation loc) - 1"
  have k: "0 \<le> ?k" "?k \<le> max_int" using assms by simp_all
  then have "wrap64 ?k = ?k" by (intro wrap64_id) (simp add: is_int_def min_int_def)
  moreover have "Repeat '' '' ?k = Return (replicate (nat ?k) CHR '' '')"
    using k by (rule Repeat_char)
  moreover have "nat ?k = length ?g + 2 + nat (Col (NodeLocation loc) - 1)"
    using assms by simp
  moreover have "Repeat ''^'' (Length loc) = Return (replicate (nat (Length loc)) CHR ''^'')"
    using assms by (intro Repeat_char)
  ultimately show ?thesis
    using assms(1,2) by (simp add: AnnotateLocation_def Let_def split: prod.splits option.splits)
qed

section \<open>The split of the annotated line\<close>

text \<open>
  Where the sum of the offset and the length is a Go \<^verbatim>\<open>int\<close> and exceeds the length of
  the line, the three parts are empty.
\<close>

lemma compute_annotation_out_of_range:
  assumes "1 \<le> col" and "0 \<le> len" and "col - 1 + len \<le> max_int"
    and "int (length line) < col - 1 + len"
  shows "compute_annotation line col len = Return ('''', '''', '''')"
proof -
  have "wrap64 (col - 1) = col - 1"
    using assms by (intro wrap64_id) (simp add: is_int_def min_int_def max_int_def)
  moreover have "wrap64 (col - 1 + len) = col - 1 + len"
    using assms by (intro wrap64_id) (simp add: is_int_def min_int_def max_int_def)
  ultimately show ?thesis
    using assms by (simp add: compute_annotation_def Let_def)
qed

text \<open>
  Where the window lies inside the line, the three parts are the text before it, the text
  in it and the text after it.
\<close>

lemma compute_annotation_in_range:
  assumes "1 \<le> col" and "0 \<le> len" and "col - 1 + len \<le> int (length line)"
    and "int (length line) \<le> max_int"
  shows "compute_annotation line col len =
     Return (take (nat (col - 1)) line, take (nat len) (drop (nat (col - 1)) line),
             drop (nat (col - 1 + len)) line)"
proof -
  have w1: "wrap64 (col - 1) = col - 1"
    using assms by (intro wrap64_id) (simp add: is_int_def min_int_def max_int_def)
  have w2: "wrap64 (col - 1 + len) = col - 1 + len"
    using assms by (intro wrap64_id) (simp add: is_int_def min_int_def max_int_def)
  have "nat (int (length line) - (col - 1 + len)) = length (drop (nat (col - 1 + len)) line)"
    using assms by simp
  then have "take (nat (int (length line) - (col - 1 + len))) (drop (nat (col - 1 + len)) line) =
      drop (nat (col - 1 + len)) line"
    by simp
  moreover have "nat (col - 1 + len - (col - 1)) = nat len" by simp
  ultimately show ?thesis
    using assms by (simp add: compute_annotation_def Let_def w1 w2 slice_def)
qed

section \<open>The first line of a plain narrative\<close>

text \<open>A format without a percent sign is printed as it is.\<close>

lemma Sprintf0_no_percent: "CHR ''%'' \<notin> set s \<Longrightarrow> Sprintf0 False s = Some s"
  by (induction s) auto

lemma digit_char_no_percent: "d < 10 \<Longrightarrow> digit_char d \<noteq> CHR ''%''"
proof -
  assume "d < 10"
  then have "digit_char d \<in> set ''0123456789''"
    unfolding digit_char_def by (intro nth_mem) simp
  then show ?thesis by auto
qed

lemma digits_no_percent: "CHR ''%'' \<notin> set (digits n)"
proof (induction n rule: digits.induct)
  case (1 n)
  show ?case
  proof (cases "n < 10")
    case True
    then show ?thesis
      using digit_char_no_percent [of n] by (subst digits.simps) auto
  next
    case False
    with 1 have "CHR ''%'' \<notin> set (digits (n div 10))" by simp
    moreover have "digit_char (n mod 10) \<noteq> CHR ''%''" by (rule digit_char_no_percent) simp
    ultimately show ?thesis using False by (subst digits.simps) auto
  qed
qed

lemma Annotate_no_percent:
  "CHR ''%'' \<notin> set (FilePath loc) \<Longrightarrow> CHR ''%'' \<notin> set message \<Longrightarrow>
   CHR ''%'' \<notin> set (Annotate loc message)"
  by (simp add: Annotate_def Sprintf_d_def digits_no_percent)

text \<open>
  With no percent sign in the path and in the message the first line of a parse error is
  written as \<^verbatim>\<open>Annotate\<close> returned it.
\<close>

lemma PrettyPrint_ParseError_without_percent:
  assumes "CHR ''%'' \<notin> set (FilePath loc)" and "CHR ''%'' \<notin> set (Error err)"
  shows "PrettyPrint fs wr (ParseError err loc) out =
     Some (case AnnotateLocation fs wr loc
                  (fst (wr out (Annotate loc (''parse error: '' @ Error err @ [nl, nl])))) of
             Panic \<Rightarrow> Panic
           | Return (out2, _) \<Rightarrow> Return out2)"
proof -
  have "CHR ''%'' \<notin> set (Annotate loc (''parse error: '' @ Error err @ [nl, nl]))"
    using assms by (intro Annotate_no_percent) simp_all
  then have "Sprintf0 False (Annotate loc (''parse error: '' @ Error err @ [nl, nl])) =
      Some (Annotate loc (''parse error: '' @ Error err @ [nl, nl]))"
    by (rule Sprintf0_no_percent)
  then show ?thesis
    by (simp add: Fprintf_format_def split: prod.splits)
qed

lemma fst_buffer_write: "fst (buffer_write b p) = b @ p"
  by (simp add: buffer_write_def)

section \<open>The annotation behind an indent\<close>

lemma split_lines_Nil_iff: "split_lines t = [] \<longleftrightarrow> t = []"
  by (cases t) (simp_all split: list.splits)

lemma split_lines_complete:
  "t = [] \<or> last t = nl \<Longrightarrow> \<forall>l \<in> set (split_lines t). isLine l"
proof (induction t rule: split_lines.induct)
  case 1
  then show ?case by simp
next
  case (2 c cs)
  show ?case
  proof (cases "c = nl")
    case True
    with 2 show ?thesis by (cases "cs = []") (simp_all add: isLine_def)
  next
    case False
    with "2.prems" have cs: "cs \<noteq> []" "last cs = nl" by (auto split: if_splits)
    then obtain l ls where s: "split_lines cs = l # ls"
      by (cases "split_lines cs") (simp_all add: split_lines_Nil_iff)
    from cs False "2.IH"(2) have "\<forall>l \<in> set (split_lines cs). isLine l" by simp
    with s False show ?thesis by (simp add: isLine_def)
  qed
qed

lemma split_lines_append:
  "a = [] \<or> last a = nl \<Longrightarrow> split_lines (a @ b) = split_lines a @ split_lines b"
proof (induction a rule: split_lines.induct)
  case 1
  then show ?case by simp
next
  case (2 c cs)
  show ?case
  proof (cases "c = nl")
    case True
    with 2 show ?thesis by (cases "cs = []") simp_all
  next
    case False
    with "2.prems" have cs: "cs \<noteq> []" "last cs = nl" by (auto split: if_splits)
    then obtain l ls where s: "split_lines cs = l # ls"
      by (cases "split_lines cs") (simp_all add: split_lines_Nil_iff)
    from cs False "2.IH"(2) have "split_lines (cs @ b) = split_lines cs @ split_lines b" by simp
    with s False show ?thesis by simp
  qed
qed

lemma indent_lines_append:
  "a = [] \<or> last a = nl \<Longrightarrow> indent_lines p (a @ b) = indent_lines p a @ indent_lines p b"
  by (simp add: indent_lines_def split_lines_append)

lemma write_lines_buffer:
  "\<forall>l \<in> set ls. isLine l \<Longrightarrow>
   write_lines buffer_write p (w, []) ls = ((w @ concat (map ((@) p) ls), []), None)"
proof (induction ls arbitrary: w)
  case Nil
  then show ?case by simp
next
  case (Cons l ls)
  then show ?case by (simp add: buffer_write_def)
qed

text \<open>A text of whole lines leaves the prefix writer with the indent before each line.\<close>

lemma PrefixWriter_Write_complete:
  "t = [] \<or> last t = nl \<Longrightarrow>
   PrefixWriter_Write buffer_write p (w, []) t = ((w @ indent_lines p t, []), None)"
  by (simp add: PrefixWriter_Write_def indent_lines_def write_lines_buffer split_lines_complete)

lemma AnnotateLocation_buffer:
  "AnnotateLocation fs buffer_write loc out =
     (case AnnotateLocation fs buffer_write loc [] of
        Panic \<Rightarrow> Panic
      | Return (written, err) \<Rightarrow> Return (out @ written, err))"
  by (simp add: AnnotateLocation_def buffer_write_def Let_def split: sum.splits outcome.splits)

lemma AnnotateLocation_steps:
  assumes "Line (NodeLocation loc) \<noteq> 0"
    and "lineInQuestion fs loc = Inr line"
  shows "AnnotateLocation fs wr loc out =
     (case wr out ((Sprintf_space_4d (Line (NodeLocation loc)) @ ''| '') @ line @ [nl]) of
        (out1, Some err) \<Rightarrow> Return (out1, Some err)
      | (out1, None) \<Rightarrow>
          (case Repeat '' '' (wrap64 (int (length (Sprintf_space_4d (Line (NodeLocation loc)) @ ''| '')) +
                  Col (NodeLocation loc) - 1)) of
             Panic \<Rightarrow> Panic
           | Return pad \<Rightarrow>
               (case Repeat ''^'' (Length loc) of
                  Panic \<Rightarrow> Panic
                | Return carets \<Rightarrow> Return (wr out1 (pad @ esc_red @ carets @ esc_reset @ [nl])))))"
  unfolding AnnotateLocation_def Let_def using assms by (simp only: if_False sum.case)

lemma AnnotateLocation_indented:
  "AnnotateLocation fs (PrefixWriter_Write buffer_write p) loc (NewPrefixWriter out) =
     (case AnnotateLocation fs buffer_write loc [] of
        Panic \<Rightarrow> Panic
      | Return (written, err) \<Rightarrow> Return ((out @ indent_lines p written, []), err))"
proof (cases "Line (NodeLocation loc) = 0")
  case True
  then show ?thesis
    by (simp add: AnnotateLocation_def NewPrefixWriter_def indent_lines_def)
next
  case nz: False
  show ?thesis
  proof (cases "lineInQuestion fs loc")
    case (Inl err)
    with nz show ?thesis
      by (simp add: AnnotateLocation_def NewPrefixWriter_def indent_lines_def)
  next
    case (Inr line)
    define a where "a = (Sprintf_space_4d (Line (NodeLocation loc)) @ ''| '') @ line @ [nl]"
    have a: "a = [] \<or> last a = nl" by (simp add: a_def)
    have wa: "PrefixWriter_Write buffer_write p (out, []) a = ((out @ indent_lines p a, []), None)"
      using a by (rule PrefixWriter_Write_complete)
    have wb: "PrefixWriter_Write buffer_write p (out @ indent_lines p a, [])
                (pad @ esc_red @ carets @ esc_reset @ [nl]) =
              ((out @ indent_lines p a @ indent_lines p (pad @ esc_red @ carets @ esc_reset @ [nl]), []), None)"
      for pad carets
      using PrefixWriter_Write_complete [of "pad @ esc_red @ carets @ esc_reset @ [nl]" p "out @ indent_lines p a"]
      by simp
    have ab: "indent_lines p (a @ b) = indent_lines p a @ indent_lines p b" for b
      using a by (rule indent_lines_append)
    show ?thesis
      unfolding AnnotateLocation_steps [OF nz Inr] a_def [symmetric] NewPrefixWriter_def
      by (simp only: wa wb buffer_write_def append_Nil ab prod.case option.case outcome.case
          split: outcome.splits) (simp add: ab)
  qed
qed

lemma annotate_defined_buffer:
  "\<forall>l \<in> set locs. AnnotateLocation fs buffer_write l [] \<noteq> Panic \<Longrightarrow>
   annotate_defined fs buffer_write locs out =
     Return (out @ concat (map (\<lambda>l. ''- '' @ FilePath l @ '':'' @ [nl] @
                                  indent_lines ''  '' (annotation fs l)) locs))"
proof (induction locs arbitrary: out)
  case Nil
  then show ?case by simp
next
  case (Cons l locs)
  from Cons.prems obtain written err where r: "AnnotateLocation fs buffer_write l [] = Return (written, err)"
    by (cases "AnnotateLocation fs buffer_write l []") auto
  from Cons.prems have "\<forall>l \<in> set locs. AnnotateLocation fs buffer_write l [] \<noteq> Panic" by simp
  note IH = Cons.IH [OF this]
  show ?case
    by (simp add: AnnotateLocation_indented r IH annotation_def fst_buffer_write)
qed

lemma annotation_two_lines_1:
  "AnnotateLocation two_lines buffer_write (at ''a.lit'' 1 1 3) [] =
     Return (''   1| one'' @ [nl] @ ''      '' @ esc_red @ ''^^^'' @ esc_reset @ [nl], None)"
  by code_simp

lemma annotation_two_lines_2:
  "AnnotateLocation two_lines buffer_write (at ''a.lit'' 2 1 3) [] =
     Return (''   2| two'' @ [nl] @ ''      '' @ esc_red @ ''^^^'' @ esc_reset @ [nl], None)"
  by code_simp

lemma annotation_two_lines_missing:
  "AnnotateLocation two_lines buffer_write (at ''b.lit'' 1 1 1) [] =
     Return ('''', Some (OtherError ''open b.lit: no such file or directory''))"
  by code_simp

section \<open>The claims about the location annotator\<close>

text \<open>
  C1. The claim: on a readable file of N lines every line number above N gives the empty
  no-content result and never an error, also when the end of the file is met while the
  preceding lines are dropped. The code meets it only at the read of the target line:
  on the one-line file \<^verbatim>\<open>a.lit\<close> line 2 gives the empty result, and line 3, whose
  end of file is met inside the loop, gives the error \<^verbatim>\<open>io.EOF\<close>.
\<close>

theorem lineInQuestion_eof_in_loop_is_error:
  "lineInQuestion (single_file ''a.lit'' [''a'']) (at ''a.lit'' 2 1 0) = Inr '''' \<and>
   lineInQuestion (single_file ''a.lit'' [''a'']) (at ''a.lit'' 3 1 0) = Inl io_EOF"
  by (simp add: lineInQuestion_single_file max_int_def)

text \<open>
  C3. The claim: the flag \<^verbatim>\<open>EOF\<close> of the annotated view is set exactly when the line
  asked for is past the last line of the file, and never for a line of the file, an empty
  one included. The code sets the flag when the text it read is empty: for line 1 of a
  two-line file whose first line is empty the view given to the template has the flag set.
\<close>

theorem AnnotatedHTML_empty_line_is_flagged_EOF:
  "AnnotatedHTML (single_file ''a.lit'' ['''', ''x'']) errorTmpl (at ''a.lit'' 1 1 0) out =
     Execute (errorTmpl ''annotated-line.tmpl'')
       (LineData \<lparr>DataFilePath = ''a.lit'', EOF = True, Lineno = ''   1'',
          Prefix = '''', Annotated = '''', Suffix = ''''\<rparr>) out"
  by (simp add: AnnotatedHTML_def lineInQuestion_single_file max_int_def compute_annotation_def
      wrap64_def slice_def Let_def Sprintf_space_4d_1)

text \<open>
  C4. The claim: for every line, every column from 1 on and every length from 0 on whose
  window \<open>column - 1 + length\<close> exceeds the length of the line, the split gives three
  empty strings and does not panic. With the greatest \<^verbatim>\<open>int\<close> as the length and
  column 2 the sum wraps around to a negative number, the guard
  \<^verbatim>\<open>len(line) >= offset+loc.Length\<close> lets it pass, and the slice expression panics.
\<close>

theorem compute_annotation_overflow_panics:
  "compute_annotation ''ab'' 2 9223372036854775807 = Panic"
  by (simp add: compute_annotation_def wrap64_def slice_def Let_def)

text \<open>
  C5, as the claim states it: the gutter is four characters wide and widens only for a
  number of more than four digits. Line 1000 has four digits and its gutter is five
  characters wide, since the space flag of \<^verbatim>\<open>% 4d\<close> puts a space before the digits;
  the carets of column 1 then stand after seven spaces, not six.
\<close>

theorem AnnotateLocation_gutter_of_line_1000:
  "AnnotateLocation (single_file ''a.lit'' (replicate 999 '''' @ [''x''])) buffer_write
      (at ''a.lit'' 1000 1 1) '''' =
     Return ('' 1000| x'' @ [nl] @ ''       '' @ esc_red @ ''^'' @ esc_reset @ [nl], None) \<and>
   AnnotateLocation (single_file ''a.lit'' (replicate 999 '''' @ [''x''])) buffer_write
      (at ''a.lit'' 1000 1 1) '''' \<noteq>
     Return (''1000| x'' @ [nl] @ ''      '' @ esc_red @ ''^'' @ esc_reset @ [nl], None)"
proof -
  have "lineInQuestion (single_file ''a.lit'' (replicate 999 '''' @ [''x''])) (at ''a.lit'' 1000 1 1) = Inr ''x''"
    by (simp add: lineInQuestion_single_file max_int_def nth_append)
  then show ?thesis
    by (simp add: AnnotateLocation_writes Sprintf_space_4d_1000 max_int_def buffer_write_def
        eval_nat_numeral)
qed

text \<open>
  C5, amended. For a location with line and column from 1 on and a length from 0 on
  (the length and the number of spaces being Go \<^verbatim>\<open>int\<close>s) whose line is read,
  \<^verbatim>\<open>AnnotateLocation\<close> writes two lines, the second if the first was written without
  error: the gutter, \<^verbatim>\<open>| \<close> and the line read; then as many spaces as the gutter and
  \<^verbatim>\<open>| \<close> are wide plus the column less one, and the run of \<open>length\<close> carets between the
  red and the reset escape sequence. The gutter is a space and the digits of the line
  number, padded with spaces on the left to four characters: four characters wide up to
  line 999, and one more than the number of digits from line 1000 on.
\<close>

theorem AnnotateLocation_two_lines:
  assumes "1 \<le> Line (NodeLocation loc)"
    and "1 \<le> Col (NodeLocation loc)"
    and "0 \<le> Length loc" and "Length loc \<le> max_int"
    and "lineInQuestion fs loc = Inr line"
    and "int (length (Sprintf_space_4d (Line (NodeLocation loc)))) + 2 + Col (NodeLocation loc) - 1 \<le> max_int"
  shows "AnnotateLocation fs wr loc out =
     (case wr out (Sprintf_space_4d (Line (NodeLocation loc)) @ ''| '' @ line @ [nl]) of
        (out1, Some err) \<Rightarrow> Return (out1, Some err)
      | (out1, None) \<Rightarrow>
          Return (wr out1
            (replicate (length (Sprintf_space_4d (Line (NodeLocation loc))) + 2 + nat (Col (NodeLocation loc) - 1)) CHR '' '' @
             esc_red @ replicate (nat (Length loc)) CHR ''^'' @ esc_reset @ [nl]))) \<and>
   Sprintf_space_4d (Line (NodeLocation loc)) =
     replicate (3 - length (digits (nat (Line (NodeLocation loc))))) CHR '' '' @ '' '' @
     digits (nat (Line (NodeLocation loc))) \<and>
   length (Sprintf_space_4d (Line (NodeLocation loc))) =
     (if Line (NodeLocation loc) \<le> 999 then 4 else Suc (length (digits (nat (Line (NodeLocation loc))))))"
proof -
  have nz: "Line (NodeLocation loc) \<noteq> 0" and nn: "0 \<le> Line (NodeLocation loc)"
    using assms(1) by simp_all
  show ?thesis
    using AnnotateLocation_writes [OF nz assms(5) assms(2) assms(6) assms(3) assms(4), of wr out]
      Sprintf_space_4d_nonneg [OF nn] length_Sprintf_space_4d [OF nn]
    by simp
qed

text \<open>The five-line file and the location of line 3, column 5, length 2.\<close>

theorem AnnotateLocation_two_lines_witness:
  "lineInQuestion (single_file ''a.lit'' [''one'', ''two'', ''three is here'', ''four'', ''five''])
      (at ''a.lit'' 3 5 2) = Inr ''three is here'' \<and>
   AnnotateLocation (single_file ''a.lit'' [''one'', ''two'', ''three is here'', ''four'', ''five''])
      buffer_write (at ''a.lit'' 3 5 2) '''' =
     Return (''   3| three is here'' @ [nl] @ ''          '' @ esc_red @ ''^^'' @ esc_reset @ [nl], None)"
  using AnnotateLocation_two_lines [of "at ''a.lit'' 3 5 2"
      "single_file ''a.lit'' [''one'', ''two'', ''three is here'', ''four'', ''five'']"
      "''three is here''" buffer_write "''''"]
  by (simp add: lineInQuestion_single_file max_int_def Sprintf_space_4d_3 buffer_write_def
      eval_nat_numeral)

text \<open>
  C10. For a location with line and column from 1 on whose window
  \<open>column - 1 + length\<close> exceeds the length of the line read (the length being a count,
  and the window and the number of spaces Go \<^verbatim>\<open>int\<close>s), the plain annotation still
  writes the line and, under it, exactly \<open>length\<close> carets, which reach beyond the end of
  the line shown; the hypertext annotation of the same location gives the template three
  empty strings. Only the hypertext path degrades.
\<close>

theorem plain_carets_beyond_line_end:
  assumes "1 \<le> Line (NodeLocation loc)"
    and "1 \<le> Col (NodeLocation loc)"
    and "0 \<le> Length loc"
    and "lineInQuestion fs loc = Inr line"
    and "int (length line) < Col (NodeLocation loc) - 1 + Length loc"
    and "Col (NodeLocation loc) - 1 + Length loc \<le> max_int"
    and "int (length (Sprintf_space_4d (Line (NodeLocation loc)))) + 2 + Col (NodeLocation loc) - 1 \<le> max_int"
  shows "AnnotateLocation fs buffer_write loc out =
     Return (out @ Sprintf_space_4d (Line (NodeLocation loc)) @ ''| '' @ line @ [nl] @
        replicate (length (Sprintf_space_4d (Line (NodeLocation loc))) + 2 + nat (Col (NodeLocation loc) - 1)) CHR '' '' @
        esc_red @ replicate (nat (Length loc)) CHR ''^'' @ esc_reset @ [nl], None) \<and>
   length (Sprintf_space_4d (Line (NodeLocation loc)) @ ''| '' @ line) <
     length (Sprintf_space_4d (Line (NodeLocation loc))) + 2 + nat (Col (NodeLocation loc) - 1) +
     nat (Length loc) \<and>
   AnnotatedHTML fs errorTmpl loc out' =
     Execute (errorTmpl ''annotated-line.tmpl'')
       (LineData \<lparr>DataFilePath = FilePath loc, EOF = (line = ''''),
          Lineno = Sprintf_space_4d (Line (NodeLocation loc)),
          Prefix = '''', Annotated = '''', Suffix = ''''\<rparr>) out'"
proof -
  have nz: "Line (NodeLocation loc) \<noteq> 0" using assms(1) by simp
  have len: "Length loc \<le> max_int" using assms(2,6) by simp
  have plain: "AnnotateLocation fs buffer_write loc out =
     Return (out @ Sprintf_space_4d (Line (NodeLocation loc)) @ ''| '' @ line @ [nl] @
        replicate (length (Sprintf_space_4d (Line (NodeLocation loc))) + 2 + nat (Col (NodeLocation loc) - 1)) CHR '' '' @
        esc_red @ replicate (nat (Length loc)) CHR ''^'' @ esc_reset @ [nl], None)"
    using AnnotateLocation_writes [OF nz assms(4) assms(2) assms(7) assms(3) len, of buffer_write out]
    by (simp add: buffer_write_def)
  have beyond: "length (Sprintf_space_4d (Line (NodeLocation loc)) @ ''| '' @ line) <
     length (Sprintf_space_4d (Line (NodeLocation loc))) + 2 + nat (Col (NodeLocation loc) - 1) +
     nat (Length loc)"
    using assms(2,3,5) by simp
  have "compute_annotation line (Col (NodeLocation loc)) (Length loc) = Return ('''', '''', '''')"
    using assms(2,3,6,5) by (rule compute_annotation_out_of_range)
  then have rich: "AnnotatedHTML fs errorTmpl loc out' =
     Execute (errorTmpl ''annotated-line.tmpl'')
       (LineData \<lparr>DataFilePath = FilePath loc, EOF = (line = ''''),
          Lineno = Sprintf_space_4d (Line (NodeLocation loc)),
          Prefix = '''', Annotated = '''', Suffix = ''''\<rparr>) out'"
    using nz assms(4) by (simp add: AnnotatedHTML_def)
  from plain beyond rich show ?thesis by blast
qed

text \<open>Line 1 of a file whose only line is \<^verbatim>\<open>one\<close>, column 3, length 5.\<close>

theorem plain_carets_beyond_line_end_witness:
  "lineInQuestion (single_file ''a.lit'' [''one'']) (at ''a.lit'' 1 3 5) = Inr ''one'' \<and>
   AnnotateLocation (single_file ''a.lit'' [''one'']) buffer_write (at ''a.lit'' 1 3 5) '''' =
     Return (''   1| one'' @ [nl] @ ''        '' @ esc_red @ ''^^^^^'' @ esc_reset @ [nl], None) \<and>
   AnnotatedHTML (single_file ''a.lit'' [''one'']) (\<lambda>name. Some show_line) (at ''a.lit'' 1 3 5) '''' =
     Return (''[]'', None)"
  using plain_carets_beyond_line_end [of "at ''a.lit'' 1 3 5" "single_file ''a.lit'' [''one'']" "''one''"
      "''''" "\<lambda>name. Some show_line" "''''"]
  by (simp add: lineInQuestion_single_file max_int_def Sprintf_space_4d_1 Execute_def
      show_line_def eval_nat_numeral)

section \<open>The claims about the plain narratives\<close>

text \<open>
  C2, as the claim states it: for every kind the plain rendering hands a failure to open
  or read the source file on to its caller as an error. For a location in a file that
  does not exist \<^verbatim>\<open>AnnotateLocation\<close> returns the error of \<^verbatim>\<open>os.Open\<close>, and
  \<^verbatim>\<open>ParseError.PrettyPrint\<close>, which calls it, writes its first line and returns as it
  does when nothing failed: \<^verbatim>\<open>PrettyPrint\<close> has no result to carry the error.
\<close>

theorem PrettyPrint_drops_the_read_failure:
  "AnnotateLocation (single_file ''a.lit'' [''one'']) buffer_write (at ''missing.lit'' 1 1 1) '''' =
     Return ('''', Some (OtherError ''open missing.lit: no such file or directory'')) \<and>
   PrettyPrint (single_file ''a.lit'' [''one'']) buffer_write
      (ParseError (OtherError ''boom'') (at ''missing.lit'' 1 1 1)) '''' =
     Some (Return (''missing.lit:1: parse error: boom'' @ [nl, nl]))"
  by (simp add: Fprintf_format_def Annotate_def AnnotateLocation_def buffer_write_def
      is_flag_def plain_verb_def lineInQuestion_def single_file_def Sprintf_d_def digits.simps
      digit_char_def)

text \<open>
  C2, amended. When the file cannot be opened or a read fails, \<^verbatim>\<open>AnnotateLocation\<close>
  and \<^verbatim>\<open>AnnotatedHTML\<close> write nothing and return that failure to their caller. The
  \<^verbatim>\<open>PrettyPrint\<close> of every kind, having no error result, drops it: it writes its
  narrative without the annotation of the location and returns.
\<close>

theorem read_failure_reaches_the_annotators_only:
  assumes "Line (NodeLocation loc) \<noteq> 0"
    and "lineInQuestion fs loc = Inl failure"
  shows "AnnotateLocation fs wr loc out = Return (out, Some failure) \<and>
   AnnotatedHTML fs errorTmpl loc out = Return (out, Some failure) \<and>
   PrettyPrint fs wr (ParseError err loc) out =
     map_option (\<lambda>r. Return (fst r))
       (Fprintf_format wr out (Annotate loc (''parse error: '' @ Error err @ [nl, nl]))) \<and>
   PrettyPrint fs wr (UnknownTagError tag loc) out =
     map_option (\<lambda>r. Return (fst r))
       (Fprintf_format wr out
          (Annotate loc (''reference points to unknown tag '' @ quote @ tag @ quote @ '':'' @ [nl, nl]))) \<and>
   PrettyPrint fs wr (AmbiguousReferenceError tag defined loc) out =
     map_option
       (\<lambda>r. case annotate_defined fs wr defined
                   (fst (wr (fst r) (''the same tag was defined in the following locations:'' @ [nl, nl]))) of
              Panic \<Rightarrow> Panic
            | Return out4 \<Rightarrow> Return (fst (wr out4 (''one of these must be changed.'' @ [nl]))))
       (Fprintf_format wr out
          (Annotate loc (Error_of (AmbiguousReferenceError tag defined loc) @ '':'' @ [nl, nl]))) \<and>
   PrettyPrint fs wr (UndefinedFunctionError f loc) out =
     map_option (\<lambda>r. Return (fst r))
       (Fprintf_format wr out (Annotate loc (Error_of (UndefinedFunctionError f loc) @ '':'' @ [nl, nl]))) \<and>
   PrettyPrint fs wr (FailedFunctionError f err loc) out =
     map_option (\<lambda>r. Return (fst (wr (fst r) (''error: '' @ Error err @ [nl]))))
       (Fprintf_format wr out
          (Annotate loc (''function '' @ backslash @ f @ '' returned an error:'' @ [nl, nl])))"
proof -
  have a: "AnnotateLocation fs wr loc out' = Return (out', Some failure)" for out'
    using assms by (simp add: AnnotateLocation_def)
  have h: "AnnotatedHTML fs errorTmpl loc out = Return (out, Some failure)"
    using assms by (simp add: AnnotatedHTML_def)
  show ?thesis
    by (simp add: a h Let_def del: Error_of.simps split: option.splits prod.splits)
qed

text \<open>A location in a file that does not exist, in a failed-function diagnostic.\<close>

theorem read_failure_reaches_the_annotators_only_witness:
  "lineInQuestion (single_file ''a.lit'' [''one'']) (at ''missing.lit'' 1 1 1) =
     Inl (OtherError ''open missing.lit: no such file or directory'') \<and>
   AnnotateLocation (single_file ''a.lit'' [''one'']) buffer_write (at ''missing.lit'' 1 1 1) ''out'' =
     Return (''out'', Some (OtherError ''open missing.lit: no such file or directory'')) \<and>
   PrettyPrint (single_file ''a.lit'' [''one'']) buffer_write
      (FailedFunctionError ''f'' (OtherError ''boom'') (at ''missing.lit'' 1 1 1)) ''out'' =
     Some (Return (''outmissing.lit:1: function '' @ backslash @ ''f returned an error:'' @ [nl, nl] @
       ''error: boom'' @ [nl]))"
  using read_failure_reaches_the_annotators_only [of "at ''missing.lit'' 1 1 1"
      "single_file ''a.lit'' [''one'']" "OtherError ''open missing.lit: no such file or directory''"
      buffer_write "''out''" name_probe "OtherError ''boom''" "''t''" "[]" "''f''"]
  by (simp add: lineInQuestion_def single_file_def Fprintf_format_def Annotate_def Sprintf_d_def
      digits.simps digit_char_def is_flag_def plain_verb_def buffer_write_def)

text \<open>
  C6. The claim: the first line of the plain narrative is the prefix and the text of the
  kind exactly, also when the path or the message holds percent signs or format verbs.
  Every \<^verbatim>\<open>PrettyPrint\<close> passes the finished text to \<^verbatim>\<open>fmt.Fprintf\<close> as its format:
  the message \<^verbatim>\<open>10%s\<close> of a parse error is printed as \<^verbatim>\<open>10%!s(MISSING)\<close>.
\<close>

theorem PrettyPrint_percent_in_message:
  "PrettyPrint fs buffer_write (ParseError (OtherError ''10%s'') (at ''a.lit'' 0 1 0)) '''' =
     Some (Return (''a.lit: parse error: 10%!s(MISSING)'' @ [nl, nl]))"
  by (simp add: Fprintf_format_def Annotate_def AnnotateLocation_def buffer_write_def
      is_flag_def plain_verb_def)

text \<open>
  C7. The plain rendering of an ambiguous reference writes, after its summary line and
  the annotation of its own location, the line
  \<^verbatim>\<open>the same tag was defined in the following locations:\<close> and an empty line, then
  for each defined location, in the order given, the line \<^verbatim>\<open>- <file_path>:\<close> and the
  annotation of that location with two spaces before each of its lines, and last the
  line \<^verbatim>\<open>one of these must be changed.\<close> This is proved for a buffer as the sink,
  where the summary line is inside the modelled part of \<^verbatim>\<open>fmt\<close> and no annotation
  panics.
\<close>

theorem AmbiguousReference_plain_rendering:
  assumes "Sprintf0 False (Annotate loc (Error_of (AmbiguousReferenceError tag defined loc) @ '':'' @ [nl, nl])) = Some summary"
    and "AnnotateLocation fs buffer_write loc [] \<noteq> Panic"
    and "\<forall>l \<in> set defined. AnnotateLocation fs buffer_write l [] \<noteq> Panic"
  shows "PrettyPrint fs buffer_write (AmbiguousReferenceError tag defined loc) out =
     Some (Return (out @ summary @ annotation fs loc @
       ''the same tag was defined in the following locations:'' @ [nl, nl] @
       concat (map (\<lambda>l. ''- '' @ FilePath l @ '':'' @ [nl] @ indent_lines ''  '' (annotation fs l)) defined) @
       ''one of these must be changed.'' @ [nl]))"
proof -
  from assms(2) obtain written err where r: "AnnotateLocation fs buffer_write loc [] = Return (written, err)"
    by (cases "AnnotateLocation fs buffer_write loc []") auto
  have a: "AnnotateLocation fs buffer_write loc (out @ summary) = Return (out @ summary @ written, err)"
    by (subst AnnotateLocation_buffer) (simp add: r)
  show ?thesis
    using assms(1)
    by (simp add: Fprintf_format_def buffer_write_def a annotate_defined_buffer [OF assms(3)]
        annotation_def r del: Error_of.simps)
qed

text \<open>
  Two defined locations, the second in a file that does not exist and so without an
  annotation.
\<close>

theorem AmbiguousReference_plain_rendering_witness:
  "PrettyPrint two_lines buffer_write
     (AmbiguousReferenceError ''t'' [at ''a.lit'' 2 1 3, at ''b.lit'' 1 1 1] (at ''a.lit'' 1 1 3)) '''' =
   Some (Return (
     ''a.lit:1: ambiguous target for tag '' @ quote @ ''t'' @ quote @ '':'' @ [nl, nl] @
     ''   1| one'' @ [nl] @
     ''      '' @ esc_red @ ''^^^'' @ esc_reset @ [nl] @
     ''the same tag was defined in the following locations:'' @ [nl, nl] @
     ''- a.lit:'' @ [nl] @
     ''     2| two'' @ [nl] @
     ''        '' @ esc_red @ ''^^^'' @ esc_reset @ [nl] @
     ''- b.lit:'' @ [nl] @
     ''one of these must be changed.'' @ [nl]))"
  using AmbiguousReference_plain_rendering [of "at ''a.lit'' 1 1 3" "''t''"
      "[at ''a.lit'' 2 1 3, at ''b.lit'' 1 1 1]"
      "''a.lit:1: ambiguous target for tag '' @ quote @ ''t'' @ quote @ '':'' @ [nl, nl]"
      two_lines "''''"]
  by (simp add: annotation_two_lines_1 annotation_two_lines_2 annotation_two_lines_missing
      annotation_def indent_lines_def Annotate_def Sprintf_d_def digits.simps digit_char_def
      is_flag_def plain_verb_def)

section \<open>The claims about the hypertext rendering\<close>

text \<open>
  C8. \<^verbatim>\<open>ErrorPage\<close> returns no error: with the page template in the registry it
  returns the sink as the template left it, and when the execution of the template
  failed, after writing \<^verbatim>\<open>failed to render error page: \<close> and the message of the
  failure to it.
\<close>

theorem ErrorPage_fallback:
  assumes "errorTmpl ''page.tmpl'' = Some page"
  shows "ErrorPage errorTmpl wr err w =
     (case page (ErrorData err) w of
        (w1, None) \<Rightarrow> Return w1
      | (w1, Some renderErr) \<Rightarrow>
          Return (fst (wr w1 (''failed to render error page: '' @ Error renderErr))))"
  using assms by (simp add: ErrorPage_def Execute_def split: prod.splits option.splits)

text \<open>A page template that writes \<^verbatim>\<open><html>\<close> and fails.\<close>

theorem ErrorPage_fallback_witness:
  "failing_page ''page.tmpl'' = Some (\<lambda>data w. (w @ ''<html>'', Some (OtherError ''template: boom''))) \<and>
   ErrorPage failing_page buffer_write (Plain (OtherError ''x'')) '''' =
     Return ''<html>failed to render error page: template: boom''"
  using ErrorPage_fallback [of failing_page "\<lambda>data w. (w @ ''<html>'', Some (OtherError ''template: boom''))"
      buffer_write "Plain (OtherError ''x'')" "''''"]
  by (simp add: failing_page_def buffer_write_def)

text \<open>
  C9, as the claim states it: the templates executed are named \<^verbatim>\<open>parse-error\<close>, ...,
  and \<^verbatim>\<open>page\<close>. In a registry where every name is bound to a template that writes
  its own name, the hypertext rendering of a parse error writes \<^verbatim>\<open>parse-error.tmpl\<close>
  and the error page writes \<^verbatim>\<open>page.tmpl\<close>: the names looked up are the base names of
  the asset files, with their extension.
\<close>

theorem PrettyHTML_template_is_not_named_parse_error:
  "PrettyHTML name_probe (ParseError (OtherError ''boom'') (at ''a.lit'' 1 1 1)) '''' =
     Return (''parse-error.tmpl'', None) \<and>
   PrettyHTML name_probe (ParseError (OtherError ''boom'') (at ''a.lit'' 1 1 1)) '''' \<noteq>
     Return (''parse-error'', None) \<and>
   ErrorPage name_probe buffer_write (Plain (OtherError ''boom'')) '''' = Return ''page.tmpl'' \<and>
   ErrorPage name_probe buffer_write (Plain (OtherError ''boom'')) '''' \<noteq> Return ''page''"
  by (simp add: name_probe_def Execute_def ErrorPage_def)

text \<open>
  C9, amended. The hypertext rendering of the five kinds executes the templates named
  \<^verbatim>\<open>parse-error.tmpl\<close>, \<^verbatim>\<open>unknown-tag.tmpl\<close>, \<^verbatim>\<open>ambiguous-reference.tmpl\<close>,
  \<^verbatim>\<open>undefined-function.tmpl\<close> and \<^verbatim>\<open>function-error.tmpl\<close>, each with the diagnostic
  as its data; \<^verbatim>\<open>ErrorPage\<close> executes the template named \<^verbatim>\<open>page.tmpl\<close>; and
  \<^verbatim>\<open>AnnotatedHTML\<close> uses no template of the registry but \<^verbatim>\<open>annotated-line.tmpl\<close>.
\<close>

theorem template_names:
  "PrettyHTML errorTmpl (ParseError err loc) out =
     Execute (errorTmpl ''parse-error.tmpl'') (ErrorData (Pretty (ParseError err loc))) out \<and>
   PrettyHTML errorTmpl (UnknownTagError tag loc) out =
     Execute (errorTmpl ''unknown-tag.tmpl'') (ErrorData (Pretty (UnknownTagError tag loc))) out \<and>
   PrettyHTML errorTmpl (AmbiguousReferenceError tag defined loc) out =
     Execute (errorTmpl ''ambiguous-reference.tmpl'')
       (ErrorData (Pretty (AmbiguousReferenceError tag defined loc))) out \<and>
   PrettyHTML errorTmpl (UndefinedFunctionError f loc) out =
     Execute (errorTmpl ''undefined-function.tmpl'') (ErrorData (Pretty (UndefinedFunctionError f loc))) out \<and>
   PrettyHTML errorTmpl (FailedFunctionError f err loc) out =
     Execute (errorTmpl ''function-error.tmpl'') (ErrorData (Pretty (FailedFunctionError f err loc))) out \<and>
   ErrorPage errorTmpl wr e out =
     (case Execute (errorTmpl ''page.tmpl'') (ErrorData e) out of
        Panic \<Rightarrow> Panic
      | Return (w1, None) \<Rightarrow> Return w1
      | Return (w1, Some renderErr) \<Rightarrow>
          Return (fst (wr w1 (''failed to render error page: '' @ Error renderErr)))) \<and>
   AnnotatedHTML fs errorTmpl loc out =
     AnnotatedHTML fs (\<lambda>name. if name = ''annotated-line.tmpl'' then errorTmpl name else None) loc out"
  by (simp add: ErrorPage_def AnnotatedHTML_def)

end
